theory Spec2Isabelle
  imports Complex_Main "HOL-Library.Word" "HOL-Library.Multiset"
begin

section \<open>Python values used by the adapter\<close>

text \<open>
  The adapter is the class \<open>RecordDataset\<close> of
  \<open>vision/datasets/tfrecord_dataset.py\<close>. Every exception the Python code can raise is
  a value of \<open>error\<close>; a computation that may raise returns \<open>error + 'a\<close> with
  \<open>Inl\<close> for the exception.
\<close>

datatype error =
    AttributeError
  | TypeError
  | ValueError
  | IndexError
  | FileNotFoundError
  | IsADirectoryError
  | ZeroDivisionError
  | ExternalError string

subsection \<open>Strings\<close>

text \<open>
  Strings are byte strings. \<open>str.isspace\<close> on the ASCII range: tab, line feed, vertical
  tab, form feed, carriage return (9 to 13), the separators 28 to 31 and the space (32).
\<close>

definition isspace :: "char \<Rightarrow> bool" where
  "isspace c = (let n = (of_char c :: nat) in (9 \<le> n \<and> n \<le> 13) \<or> (28 \<le> n \<and> n \<le> 32))"

definition lstrip :: "string \<Rightarrow> string" where
  "lstrip s = dropWhile isspace s"

definition rstrip :: "string \<Rightarrow> string" where
  "rstrip s = rev (dropWhile isspace (rev s))"

definition strip :: "string \<Rightarrow> string" where
  "strip s = rstrip (lstrip s)"

text \<open>\<open>str.lower\<close> on the ASCII range: the letters A to Z (65 to 90) move up by 32.\<close>

definition lower_char :: "char \<Rightarrow> char" where
  "lower_char c = (let n = (of_char c :: nat) in if 65 \<le> n \<and> n \<le> 90 then char_of (n + 32) else c)"

definition lower :: "string \<Rightarrow> string" where
  "lower s = map lower_char s"

text \<open>
  \<open>s.split(sep)\<close> for a separator of one character: the pieces between the separators,
  so the empty string gives one empty piece.
\<close>

fun split_on :: "char \<Rightarrow> string \<Rightarrow> string list" where
  "split_on sep [] = [[]]"
| "split_on sep (x # xs) =
     (if x = sep then [] # split_on sep xs
      else (case split_on sep xs of
              [] \<Rightarrow> [[x]]
            | w # ws \<Rightarrow> (x # w) # ws))"

text \<open>\<open>s.replace(" ", "")\<close>: every space character is removed.\<close>

definition replace_space :: "string \<Rightarrow> string" where
  "replace_space s = filter (\<lambda>c. c \<noteq> CHR '' '') s"

subsection \<open>Parsing numbers\<close>

definition isdigit :: "char \<Rightarrow> bool" where
  "isdigit c = (let n = (of_char c :: nat) in 48 \<le> n \<and> n \<le> 57)"

definition digit_val :: "char \<Rightarrow> nat" where
  "digit_val c = of_char c - 48"

definition digits_val :: "string \<Rightarrow> nat" where
  "digits_val ds = foldl (\<lambda>acc c. 10 * acc + digit_val c) 0 ds"

text \<open>
  A digit run of a Python numeric literal: digits, with single underscores allowed
  between two digits.
\<close>

fun digit_run :: "string \<Rightarrow> bool" where
  "digit_run [] = False"
| "digit_run [c] = isdigit c"
| "digit_run (c # d # cs) =
     (isdigit c \<and> (if d = CHR ''_'' then digit_run cs else digit_run (d # cs)))"

definition split_sign :: "string \<Rightarrow> bool \<times> string" where
  "split_sign s =
     (case s of
        [] \<Rightarrow> (False, [])
      | c # r \<Rightarrow> if c = CHR ''-'' then (True, r) else if c = CHR ''+'' then (False, r) else (False, s))"

text \<open>
  \<open>int(s)\<close> for a string: surrounding whitespace is ignored, then an optional sign and
  a digit run in base ten; anything else is a ValueError.
\<close>

definition py_int :: "string \<Rightarrow> error + int" where
  "py_int s =
     (let (neg, ds) = split_sign (strip s) in
      if digit_run ds
      then Inr ((if neg then - 1 else 1) * int (digits_val (filter isdigit ds)))
      else Inl ValueError)"


text \<open>
  \<open>float(s)\<close> for a string holding a decimal literal: surrounding whitespace is ignored,
  then an optional sign, digits with an optional fraction, and an optional exponent.
  Coordinates are exact reals here: the binary rounding of Python floats and of the
  float32 array the boxes are stored in is not part of the model, and neither are the
  literals \<open>inf\<close> and \<open>nan\<close> nor underscores inside a float literal.
\<close>

definition py_float :: "string \<Rightarrow> error + real" where
  "py_float s =
     (let (neg, u) = split_sign (strip s);
          ip = takeWhile isdigit u;
          r1 = dropWhile isdigit u;
          (fp, r2) = (case r1 of
                        [] \<Rightarrow> ([], [])
                      | c # r \<Rightarrow> if c = CHR ''.'' then (takeWhile isdigit r, dropWhile isdigit r)
                                else ([], r1));
          ex = (case r2 of
                  [] \<Rightarrow> Some 0
                | c # r \<Rightarrow>
                    if c = CHR ''e'' \<or> c = CHR ''E'' then
                      (let (eneg, ed) = split_sign r in
                       if ed \<noteq> [] \<and> list_all isdigit ed
                       then Some ((if eneg then - 1 else 1) * int (digits_val ed))
                       else None)
                    else None)
      in if ip = [] \<and> fp = [] then Inl ValueError
         else (case ex of
                 None \<Rightarrow> Inl ValueError
               | Some e \<Rightarrow>
                   Inr ((if neg then - 1 else 1) * real (digits_val (ip @ fp))
                        * 10 powi (e - int (length fp)))))"

subsection \<open>Lists\<close>

text \<open>\<open>xs[i]\<close> on a Python list: a negative index counts from the end.\<close>

definition py_index :: "'a list \<Rightarrow> int \<Rightarrow> error + 'a" where
  "py_index xs i =
     (if 0 \<le> i \<and> i < int (length xs) then Inr (xs ! nat i)
      else if - int (length xs) \<le> i \<and> i < 0 then Inr (xs ! nat (int (length xs) + i))
      else Inl IndexError)"

text \<open>\<open>np.arange(start, stop)\<close> on integers: \<open>start, start + 1, ..., stop - 1\<close>.\<close>

definition arange :: "int \<Rightarrow> int \<Rightarrow> int list" where
  "arange start stop = [start..stop - 1]"

section \<open>Arrays\<close>

text \<open>
  A numpy array is its shape and its elements in row-major order. An array of shape
  \<open>(n, 4)\<close> holds \<open>n\<close> rows of four elements; \<open>np.array([])\<close> has shape \<open>(0,)\<close>.
\<close>

datatype 'a ndarray = NDArray (shape: "nat list") (data: "'a list")

definition chunk :: "nat \<Rightarrow> 'a list \<Rightarrow> nat \<Rightarrow> 'a list" where
  "chunk c xs k = take c (drop (k * c) xs)"

definition row_size :: "'a ndarray \<Rightarrow> nat" where
  "row_size a = prod_list (tl (shape a))"

text \<open>The rows (entries along the first axis) of \<open>a\<close> at the positions \<open>ks\<close>.\<close>

definition take_rows :: "'a ndarray \<Rightarrow> nat list \<Rightarrow> 'a ndarray" where
  "take_rows a ks =
     NDArray (length ks # tl (shape a)) (concat (map (chunk (row_size a) (data a)) ks))"

text \<open>The positions at which a one-dimensional boolean mask is true.\<close>

definition true_positions :: "bool ndarray \<Rightarrow> nat list" where
  "true_positions m = filter (\<lambda>k. data m ! k) [0..<length (data m)]"

text \<open>
  \<open>a[m]\<close> for a one-dimensional boolean mask \<open>m\<close>: the rows of \<open>a\<close> where \<open>m\<close> is true;
  an IndexError when the mask's length is not the length of the first axis.
\<close>

definition mask_index :: "'a ndarray \<Rightarrow> bool ndarray \<Rightarrow> error + 'a ndarray" where
  "mask_index a m =
     (if length (shape m) = 1 \<and> shape a \<noteq> [] \<and> hd (shape a) = hd (shape m)
      then Inr (take_rows a (true_positions m))
      else Inl IndexError)"

text \<open>\<open>d == 0\<close>, element by element.\<close>

definition eq_zero :: "8 word ndarray \<Rightarrow> bool ndarray" where
  "eq_zero d = NDArray (shape d) (map (\<lambda>w. w = 0) (data d))"

text \<open>
  \<open>np.array(boxes, dtype=np.float32)\<close> for the Python list of four-element lists that
  annotation parsing builds, and \<open>np.array(xs, dtype=...)\<close> for a flat Python list.
  The difficulty flags are stored as unsigned bytes: a Python integer outside 0..255 wraps
  (numpy 1.x, which the TensorFlow 1 interface used at line 71 goes with).
\<close>

definition np_array_boxes :: "real list list \<Rightarrow> real ndarray" where
  "np_array_boxes rows =
     (if rows = [] then NDArray [0] [] else NDArray [length rows, 4] (concat rows))"

definition np_array_flat :: "'a list \<Rightarrow> 'a ndarray" where
  "np_array_flat xs = NDArray [length xs] xs"

definition np_array_uint8 :: "int list \<Rightarrow> 8 word ndarray" where
  "np_array_uint8 xs = np_array_flat (map word_of_int xs)"

text \<open>
  \<open>np.array(arrays)\<close> for a Python list of arrays: a new first axis when all shapes
  agree. For ragged input numpy 1.24 and later raise here; earlier versions build a
  one-dimensional object array, on which the concatenation along axis 2 that follows at
  line 115 raises. The call raises in both cases, and the model raises here.
\<close>

definition np_stack :: "'a ndarray list \<Rightarrow> error + 'a ndarray" where
  "np_stack arrs =
     (case arrs of
        [] \<Rightarrow> Inr (NDArray [0] [])
      | a # rest \<Rightarrow>
          if list_all (\<lambda>b. shape b = shape a) rest
          then Inr (NDArray (length arrs # shape a) (concat (map data arrs)))
          else Inl ValueError)"

text \<open>
  \<open>np.expand_dims(a, axis)\<close>: a new axis of size one at position \<open>axis\<close>. An axis
  beyond the rank is an AxisError (a ValueError); numpy before 1.18 only warned and
  appended the axis, and then line 115 raises, as no array of rank below three has an
  axis 2.
\<close>

definition expand_dims :: "'a ndarray \<Rightarrow> nat \<Rightarrow> error + 'a ndarray" where
  "expand_dims a axis =
     (if axis \<le> length (shape a)
      then Inr (NDArray (take axis (shape a) @ [1] @ drop axis (shape a)) (data a))
      else Inl ValueError)"

text \<open>
  \<open>np.concatenate([a, b], axis)\<close>: both arrays have the same rank, the axis exists, and
  the shapes agree on every other axis; for each position of the leading axes, the
  elements of \<open>a\<close> are followed by those of \<open>b\<close>.
\<close>

definition concatenate :: "'a ndarray \<Rightarrow> 'a ndarray \<Rightarrow> nat \<Rightarrow> error + 'a ndarray" where
  "concatenate a b axis =
     (let sa = shape a; sb = shape b in
      if length sa = length sb \<and> axis < length sa \<and> take axis sa = take axis sb
         \<and> drop (Suc axis) sa = drop (Suc axis) sb
      then
        (let outer = prod_list (take axis sa);
             ca = prod_list (drop axis sa);
             cb = prod_list (drop axis sb)
         in Inr (NDArray (take axis sa @ [sa ! axis + sb ! axis] @ drop (Suc axis) sa)
                   (concat (map (\<lambda>k. chunk ca (data a) k @ chunk cb (data b) k) [0..<outer]))))
      else Inl ValueError)"

section \<open>Annotation documents\<close>

text \<open>
  An element of a parsed XML document, as \<open>xml.etree.ElementTree\<close> gives it: the tag,
  the text (\<open>None\<close> for an element without text) and the child elements in document
  order. \<open>find\<close> is the first child with a tag, \<open>findall\<close> all of them.
\<close>

datatype xml = Element (tag: string) (elem_text: "string option") (children: "xml list")

definition find_elem :: "xml \<Rightarrow> string \<Rightarrow> xml option" where
  "find_elem e t = List.find (\<lambda>c. tag c = t) (children e)"

definition findall :: "xml \<Rightarrow> string \<Rightarrow> xml list" where
  "findall e t = filter (\<lambda>c. tag c = t) (children e)"

section \<open>The file system the constructor reads\<close>

text \<open>
  A path below the dataset root is the pair of the root and the relative name, which is
  what \<open>self.root / name\<close> denotes. A path holds a regular file with its text, a
  directory, or nothing.
\<close>

datatype node = File string | Directory

type_synonym path = "string \<times> string"

type_synonym filesystem = "path \<Rightarrow> node option"

definition isfile :: "filesystem \<Rightarrow> path \<Rightarrow> bool" where
  "isfile fs p = (case fs p of Some (File c) \<Rightarrow> True | _ \<Rightarrow> False)"

text \<open>\<open>open(p, 'r')\<close> followed by \<open>f.read()\<close>.\<close>

definition open_read :: "filesystem \<Rightarrow> path \<Rightarrow> error + string" where
  "open_read fs p =
     (case fs p of
        None \<Rightarrow> Inl FileNotFoundError
      | Some Directory \<Rightarrow> Inl IsADirectoryError
      | Some (File c) \<Rightarrow> Inr c)"

section \<open>The adapter object\<close>

text \<open>
  The attributes of a \<open>RecordDataset\<close> object. \<open>root_dir\<close> is \<open>self.root\<close>. The
  methods read \<open>self.ids\<close>, so the object they run on has this attribute, although the
  constructor of this class never assigns it. \<open>feature_list\<close> is a constant of the
  TensorFlow interface that no method reads; it is left out.

  An image is an array of numbers; the boxes of one sample are a real array and its
  labels an integer array. A transform is a callable given from outside: it may raise,
  and \<open>None\<close> is the Python default.
\<close>

type_synonym image = "real ndarray"

type_synonym boxes = "real ndarray"

type_synonym labels = "int ndarray"

datatype tfrecord = TFRecord path

record RecordDataset =
  root_dir :: string
  batch_size :: int
  transform :: "(image \<times> boxes \<times> labels \<Rightarrow> error + image \<times> boxes \<times> labels) option"
  target_transform :: "(boxes \<times> labels \<Rightarrow> error + boxes \<times> labels) option"
  num_records :: "int option"
  dataset :: tfrecord
  keep_difficult :: bool
  num_batches :: int
  class_names :: "string list"
  class_dict :: "string \<Rightarrow> int option"
  ids :: "string list"

section \<open>Construction\<close>

text \<open>
  Lines 27 to 36 of \<open>__init__\<close>: the split's record file, and the attribute
  \<open>num_records\<close> when the branch assigns it (\<open>None\<close> when it stays unset).
\<close>

definition image_sets_file :: "string \<Rightarrow> bool \<Rightarrow> path" where
  "image_sets_file rt is_test = (if is_test then (rt, ''val.record'') else (rt, ''train.record''))"

definition init_num_records :: "filesystem \<Rightarrow> string \<Rightarrow> bool \<Rightarrow> error + int option" where
  "init_num_records fs rt is_test =
     (if is_test then
        (if isfile fs (rt, ''num_val.txt'') then
           (case open_read fs (rt, ''num_val.txt'') of
              Inl e \<Rightarrow> Inl e
            | Inr c \<Rightarrow> (case py_int c of Inl e \<Rightarrow> Inl e | Inr n \<Rightarrow> Inr (Some n)))
         else Inr None)
      else
        (if isfile fs (rt, ''num_val.txt'') then
           (case open_read fs (rt, ''num_train.txt'') of
              Inl e \<Rightarrow> Inl e
            | Inr c \<Rightarrow> (case py_int c of Inl e \<Rightarrow> Inl e | Inr n \<Rightarrow> Inr (Some n)))
         else Inr None))"

text \<open>
  Line 40 reads \<open>self.ids\<close>. No statement of the class assigns \<open>ids\<close>
  (\<open>_read_image_ids\<close> is never called) and the base class \<open>Sequence\<close> has no such
  attribute, so the lookup raises.
\<close>

definition getattr_ids :: "error + string list" where
  "getattr_ids = Inl AttributeError"

text \<open>
  Reading a text file line by line: \<open>open\<close> in text mode turns a carriage return,
  alone or followed by a line feed, into a line feed, and the iteration gives the pieces
  that end at a line feed (here without it; \<open>rstrip\<close> removes it in the caller).
\<close>

fun universal_newlines :: "string \<Rightarrow> string" where
  "universal_newlines [] = []"
| "universal_newlines [c] = (if c = CHR 0x0D then [CHR 0x0A] else [c])"
| "universal_newlines (c # d # cs) =
     (if c = CHR 0x0D \<and> d = CHR 0x0A then CHR 0x0A # universal_newlines cs
      else if c = CHR 0x0D then CHR 0x0A # universal_newlines (d # cs)
      else c # universal_newlines (d # cs))"

definition file_lines :: "string \<Rightarrow> string list" where
  "file_lines c =
     (let ps = split_on (CHR 0x0A) (universal_newlines c)
      in if last ps = [] then butlast ps else ps)"

definition default_voc :: "string list" where
  "default_voc =
     [''BACKGROUND'',
      ''aeroplane'', ''bicycle'', ''bird'', ''boat'',
      ''bottle'', ''bus'', ''car'', ''cat'', ''chair'',
      ''cow'', ''diningtable'', ''dog'', ''horse'',
      ''motorbike'', ''person'', ''pottedplant'',
      ''sheep'', ''sofa'', ''train'', ''tvmonitor'']"

text \<open>
  Lines 43 to 67: the class names, from \<open>label_map.txt\<close> when it is a file, the
  default list otherwise.
\<close>

definition label_file_classes :: "string \<Rightarrow> string list" where
  "label_file_classes c =
     (let class_string = concat (map rstrip (file_lines c));
          classes = split_on (CHR '','') class_string;
          classes = ''BACKGROUND'' # classes
      in map replace_space classes)"

definition init_class_names :: "filesystem \<Rightarrow> string \<Rightarrow> error + string list" where
  "init_class_names fs rt =
     (if isfile fs (rt, ''label_map.txt'') then
        (case open_read fs (rt, ''label_map.txt'') of
           Inl e \<Rightarrow> Inl e
         | Inr c \<Rightarrow> Inr (label_file_classes c))
      else Inr default_voc)"

text \<open>
  Line 69: \<open>{class_name: i for i, class_name in enumerate(self.class_names)}\<close>. The
  entries are stored in order, so a name that occurs twice keeps its last position.
\<close>

definition make_class_dict :: "string list \<Rightarrow> string \<Rightarrow> int option" where
  "make_class_dict names =
     fold (\<lambda>(i, class_name) d. d(class_name \<mapsto> int i)) (enumerate 0 names) Map.empty"

text \<open>
  \<open>__init__\<close>. \<open>TFRecordDataset\<close> is the constructor of the record reader, a
  collaborator outside the repository; it is given the path only.
\<close>

definition init ::
  "(path \<Rightarrow> error + tfrecord) \<Rightarrow> filesystem \<Rightarrow> string
   \<Rightarrow> (image \<times> boxes \<times> labels \<Rightarrow> error + image \<times> boxes \<times> labels) option
   \<Rightarrow> (boxes \<times> labels \<Rightarrow> error + boxes \<times> labels) option
   \<Rightarrow> bool \<Rightarrow> bool \<Rightarrow> int \<Rightarrow> error + RecordDataset" where
  "init TFRecordDataset fs rt tr tt is_test kd bs =
     (case init_num_records fs rt is_test of
        Inl e \<Rightarrow> Inl e
      | Inr nr \<Rightarrow>
          (case TFRecordDataset (image_sets_file rt is_test) of
             Inl e \<Rightarrow> Inl e
           | Inr ds \<Rightarrow>
               (case getattr_ids of
                  Inl e \<Rightarrow> Inl e
                | Inr the_ids \<Rightarrow>
                    if bs = 0 then Inl ZeroDivisionError
                    else
                      (case init_class_names fs rt of
                         Inl e \<Rightarrow> Inl e
                       | Inr names \<Rightarrow>
                           Inr \<lparr>root_dir = rt, batch_size = bs, transform = tr,
                                target_transform = tt, num_records = nr, dataset = ds,
                                keep_difficult = kd,
                                num_batches = int (length the_ids) div bs,
                                class_names = names,
                                class_dict = make_class_dict names,
                                ids = the_ids\<rparr>))))"

section \<open>Annotation parsing\<close>

text \<open>
  One coordinate, lines 153 to 156: \<open>float(bbox.find(field).text) - 1\<close>. A missing
  \<open>bndbox\<close> or a missing field is an attribute read on \<open>None\<close>; an element without
  text gives \<open>float(None)\<close>.
\<close>

definition coordinate :: "xml option \<Rightarrow> string \<Rightarrow> error + real" where
  "coordinate bbox field =
     (case bbox of
        None \<Rightarrow> Inl AttributeError
      | Some b \<Rightarrow>
          (case find_elem b field of
             None \<Rightarrow> Inl AttributeError
           | Some e \<Rightarrow>
               (case elem_text e of
                  None \<Rightarrow> Inl TypeError
                | Some t \<Rightarrow>
                    (case py_float t of Inl err \<Rightarrow> Inl err | Inr v \<Rightarrow> Inr (v - 1)))))"


text \<open>Lines 160 and 161: the difficulty flag of an object element.\<close>

definition difficult_flag :: "xml \<Rightarrow> error + int" where
  "difficult_flag obj =
     (case find_elem obj ''difficult'' of
        None \<Rightarrow> Inl AttributeError
      | Some d \<Rightarrow>
          (case elem_text d of
             None \<Rightarrow> Inr 0
           | Some is_difficult_str \<Rightarrow>
               if is_difficult_str \<noteq> [] then py_int is_difficult_str else Inr 0))"

text \<open>
  The body of the loop, lines 147 to 161, for one object element: \<open>None\<close> when the
  class is not in the dictionary, else the box, the label and the difficulty flag.
\<close>

definition parse_object ::
  "(string \<Rightarrow> int option) \<Rightarrow> xml \<Rightarrow> error + (real list \<times> int \<times> int) option" where
  "parse_object cd obj =
     (case find_elem obj ''name'' of
        None \<Rightarrow> Inl AttributeError
      | Some nm \<Rightarrow>
          (case elem_text nm of
             None \<Rightarrow> Inl AttributeError
           | Some t \<Rightarrow>
               (let class_name = strip (lower t) in
                case cd class_name of
                  None \<Rightarrow> Inr None
                | Some label \<Rightarrow>
                    (let bbox = find_elem obj ''bndbox'' in
                     case coordinate bbox ''xmin'' of Inl e \<Rightarrow> Inl e | Inr x1 \<Rightarrow>
                     (case coordinate bbox ''ymin'' of Inl e \<Rightarrow> Inl e | Inr y1 \<Rightarrow>
                     (case coordinate bbox ''xmax'' of Inl e \<Rightarrow> Inl e | Inr x2 \<Rightarrow>
                     (case coordinate bbox ''ymax'' of Inl e \<Rightarrow> Inl e | Inr y2 \<Rightarrow>
                     (case difficult_flag obj of Inl e \<Rightarrow> Inl e | Inr d \<Rightarrow>
                        Inr (Some ([x1, y1, x2, y2], label, d))))))))))"

text \<open>The loop of lines 146 to 161 over the object elements, with its three lists.\<close>

fun parse_objects ::
  "(string \<Rightarrow> int option) \<Rightarrow> xml list \<Rightarrow> real list list \<Rightarrow> int list \<Rightarrow> int list
   \<Rightarrow> error + (real list list \<times> int list \<times> int list)" where
  "parse_objects cd [] bxs lbs is_difficult = Inr (bxs, lbs, is_difficult)"
| "parse_objects cd (obj # objs) bxs lbs is_difficult =
     (case parse_object cd obj of
        Inl e \<Rightarrow> Inl e
      | Inr None \<Rightarrow> parse_objects cd objs bxs lbs is_difficult
      | Inr (Some (b, l, d)) \<Rightarrow>
          parse_objects cd objs (bxs @ [b]) (lbs @ [l]) (is_difficult @ [d]))"

text \<open>Lines 143 to 165: the three arrays for the object elements of a document.\<close>

definition annotation_arrays ::
  "(string \<Rightarrow> int option) \<Rightarrow> xml list \<Rightarrow> error + (boxes \<times> labels \<times> 8 word ndarray)" where
  "annotation_arrays cd objs =
     (case parse_objects cd objs [] [] [] of
        Inl e \<Rightarrow> Inl e
      | Inr (bxs, lbs, is_difficult) \<Rightarrow>
          Inr (np_array_boxes bxs, np_array_flat lbs, np_array_uint8 is_difficult))"

text \<open>
  The files the methods read: \<open>et_parse\<close> is \<open>ET.parse\<close>, giving the root element of
  the document at a path or raising (a missing file, malformed XML); \<open>cv2_read\<close> is
  \<open>cv2.imread\<close> followed by \<open>cv2.cvtColor\<close>.
\<close>

record files =
  et_parse :: "path \<Rightarrow> error + xml"
  cv2_read :: "path \<Rightarrow> error + image"

text \<open>\<open>_get_annotation\<close> and \<open>_read_image\<close>.\<close>

definition priv_get_annotation ::
  "files \<Rightarrow> RecordDataset \<Rightarrow> string \<Rightarrow> error + (boxes \<times> labels \<times> 8 word ndarray)" where
  "priv_get_annotation w self image_id =
     (case et_parse w (root_dir self, ''Annotations/'' @ image_id @ ''.xml'') of
        Inl e \<Rightarrow> Inl e
      | Inr doc \<Rightarrow> annotation_arrays (class_dict self) (findall doc ''object''))"

definition priv_read_image :: "files \<Rightarrow> RecordDataset \<Rightarrow> string \<Rightarrow> error + image" where
  "priv_read_image w self image_id =
     cv2_read w (root_dir self, ''JPEGImages/'' @ image_id @ ''.jpg'')"

section \<open>The public operations\<close>

text \<open>
  \<open>__len__\<close>, \<open>get_annotation\<close> and \<open>__getitem__\<close>. \<open>get_image\<close> reads
  \<open>self.ids[index]\<close> as \<open>get_annotation\<close> does and is not modelled further: it
  calls the image transform with the image alone, which the transforms typed above do not
  take.
\<close>

definition len :: "RecordDataset \<Rightarrow> int" where
  "len self = int (length (ids self))"

definition get_annotation ::
  "files \<Rightarrow> RecordDataset \<Rightarrow> int
   \<Rightarrow> error + (string \<times> (boxes \<times> labels \<times> 8 word ndarray))" where
  "get_annotation w self index =
     (case py_index (ids self) index of
        Inl e \<Rightarrow> Inl e
      | Inr image_id \<Rightarrow>
          (case priv_get_annotation w self image_id of
             Inl e \<Rightarrow> Inl e
           | Inr ann \<Rightarrow> Inr (image_id, ann)))"

text \<open>
  \<open>__getitem__\<close>, lines 90 to 94: the end of the index range and the shuffled
  indices. \<open>shuffle\<close> stands for \<open>np.random.shuffle\<close>: the order it leaves the array
  in.
\<close>

definition batch_end :: "RecordDataset \<Rightarrow> int \<Rightarrow> int" where
  "batch_end self idx =
     (let e = (idx + 1) * batch_size self
      in if e \<ge> len self then len self - 1 else e)"

definition batch_idxs :: "(int list \<Rightarrow> int list) \<Rightarrow> RecordDataset \<Rightarrow> int \<Rightarrow> int list" where
  "batch_idxs shuffle self idx = shuffle (arange (idx * batch_size self) (batch_end self idx))"

text \<open>Lines 98 to 100: the difficulty mask, applied to the boxes and to the labels.\<close>

definition drop_difficult ::
  "RecordDataset \<Rightarrow> boxes \<times> labels \<times> 8 word ndarray \<Rightarrow> error + boxes \<times> labels" where
  "drop_difficult self ann =
     (case ann of (bxs, lbs, is_difficult) \<Rightarrow>
        if \<not> keep_difficult self then
          (case mask_index bxs (eq_zero is_difficult) of
             Inl e \<Rightarrow> Inl e
           | Inr b \<Rightarrow>
               (case mask_index lbs (eq_zero is_difficult) of
                  Inl e \<Rightarrow> Inl e
                | Inr l \<Rightarrow> Inr (b, l)))
        else Inr (bxs, lbs))"

text \<open>Lines 102 to 105: the two optional transforms.\<close>

definition apply_transforms ::
  "RecordDataset \<Rightarrow> image \<times> boxes \<times> labels \<Rightarrow> error + image \<times> boxes \<times> labels" where
  "apply_transforms self s =
     (case (case transform self of None \<Rightarrow> Inr s | Some f \<Rightarrow> f s) of
        Inl e \<Rightarrow> Inl e
      | Inr (img, bxs, lbs) \<Rightarrow>
          (case target_transform self of
             None \<Rightarrow> Inr (img, bxs, lbs)
           | Some g \<Rightarrow>
               (case g (bxs, lbs) of
                  Inl e \<Rightarrow> Inl e
                | Inr (b, l) \<Rightarrow> Inr (img, b, l))))"

text \<open>Lines 96 to 105: what one index of the range contributes.\<close>

definition fetch_sample ::
  "files \<Rightarrow> RecordDataset \<Rightarrow> int \<Rightarrow> error + image \<times> boxes \<times> labels" where
  "fetch_sample w self i =
     (case py_index (ids self) i of
        Inl e \<Rightarrow> Inl e
      | Inr image_id \<Rightarrow>
          (case priv_get_annotation w self image_id of
             Inl e \<Rightarrow> Inl e
           | Inr ann \<Rightarrow>
               (case drop_difficult self ann of
                  Inl e \<Rightarrow> Inl e
                | Inr (bxs, lbs) \<Rightarrow>
                    (case priv_read_image w self image_id of
                       Inl e \<Rightarrow> Inl e
                     | Inr img \<Rightarrow> apply_transforms self (img, bxs, lbs)))))"

text \<open>
  Lines 111 to 116: the batch from the three lists. The labels are integers and the
  boxes floats, so the concatenation holds the labels as floats.
\<close>

definition assemble ::
  "image list \<Rightarrow> boxes list \<Rightarrow> labels list \<Rightarrow> error + real ndarray \<times> real ndarray" where
  "assemble inputs target1 target2 =
     (case np_stack inputs of
        Inl e \<Rightarrow> Inl e
      | Inr tmp_inputs \<Rightarrow>
          (case np_stack target1 of
             Inl e \<Rightarrow> Inl e
           | Inr tmp_target1 \<Rightarrow>
               (case np_stack target2 of
                  Inl e \<Rightarrow> Inl e
                | Inr tmp_target2 \<Rightarrow>
                    (case expand_dims tmp_target2 2 of
                       Inl e \<Rightarrow> Inl e
                     | Inr expanded \<Rightarrow>
                         (case concatenate tmp_target1 (map_ndarray real_of_int expanded) 2 of
                            Inl e \<Rightarrow> Inl e
                          | Inr tmp_target \<Rightarrow> Inr (tmp_inputs, tmp_target))))))"

text \<open>
  The loop of lines 95 to 116 over the shuffled indices. \<open>Inr None\<close> is the end of
  the method without a \<open>return\<close>: the caller gets \<open>None\<close>, no batch.
\<close>

fun getitem_loop ::
  "files \<Rightarrow> RecordDataset \<Rightarrow> image list \<Rightarrow> boxes list \<Rightarrow> labels list \<Rightarrow> int list
   \<Rightarrow> error + (real ndarray \<times> real ndarray) option" where
  "getitem_loop w self inputs target1 target2 [] = Inr None"
| "getitem_loop w self inputs target1 target2 (i # rest) =
     (case fetch_sample w self i of
        Inl e \<Rightarrow> Inl e
      | Inr (img, bxs, lbs) \<Rightarrow>
          if int (length (target1 @ [bxs])) = batch_size self then
            (case assemble (inputs @ [img]) (target1 @ [bxs]) (target2 @ [lbs]) of
               Inl e \<Rightarrow> Inl e
             | Inr batch \<Rightarrow> Inr (Some batch))
          else getitem_loop w self (inputs @ [img]) (target1 @ [bxs]) (target2 @ [lbs]) rest)"

definition getitem ::
  "files \<Rightarrow> (int list \<Rightarrow> int list) \<Rightarrow> RecordDataset \<Rightarrow> int
   \<Rightarrow> error + (real ndarray \<times> real ndarray) option" where
  "getitem w shuffle self idx = getitem_loop w self [] [] [] (batch_idxs shuffle self idx)"

section \<open>Example inputs\<close>

text \<open>
  A record reader that only keeps the path (the file is opened when the records are
  iterated, which the adapter never does), and a file system with the given entries
  below the root \<open>data\<close> and nothing else.
\<close>

definition lazy_reader :: "path \<Rightarrow> error + tfrecord" where
  "lazy_reader p = Inr (TFRecord p)"

definition example_fs :: "(string \<times> node) list \<Rightarrow> filesystem" where
  "example_fs entries p = (if fst p = ''data'' then map_of entries (snd p) else None)"


text \<open>
  Annotation documents in the layout of the data set: an \<open>object\<close> element with a
  \<open>name\<close>, a \<open>bndbox\<close> with the four fields, and whatever else is given.
\<close>

definition leaf :: "string \<Rightarrow> string \<Rightarrow> xml" where
  "leaf t s = Element t (Some s) []"

definition bndbox :: "string \<Rightarrow> string \<Rightarrow> string \<Rightarrow> string \<Rightarrow> xml" where
  "bndbox xmin ymin xmax ymax =
     Element ''bndbox'' None
       [leaf ''xmin'' xmin, leaf ''ymin'' ymin, leaf ''xmax'' xmax, leaf ''ymax'' ymax]"

definition voc_object :: "string \<Rightarrow> xml \<Rightarrow> xml list \<Rightarrow> xml" where
  "voc_object name box rest = Element ''object'' None ([leaf ''name'' name, box] @ rest)"

definition cat_dog_dict :: "string \<Rightarrow> int option" where
  "cat_dog_dict = make_class_dict [''BACKGROUND'', ''cat'', ''dog'']"

text \<open>
  An annotation document with a cat (not difficult) and a dog (difficult), served for the
  identifiers \<open>a\<close> and \<open>b\<close> together with an image of one pixel, and an adapter object
  on the class names of the label file \<open>cat,dog\<close>, without transforms.
\<close>

definition cat_dog_document :: xml where
  "cat_dog_document =
     Element ''annotation'' None
       [leaf ''filename'' ''a.jpg'',
        voc_object ''cat'' (bndbox ''1'' ''2'' ''3'' ''4'') [leaf ''difficult'' ''0''],
        voc_object ''dog'' (bndbox ''5'' ''6'' ''7'' ''8'') [leaf ''difficult'' ''1'']]"

definition example_files :: files where
  "example_files =
     \<lparr>et_parse = (\<lambda>p. if p = (''data'', ''Annotations/a.xml'') then Inr cat_dog_document
                      else if p = (''data'', ''Annotations/b.xml'') then Inr cat_dog_document
                      else Inl FileNotFoundError),
      cv2_read = (\<lambda>p. Inr (NDArray [1, 1, 3] [0, 0, 0]))\<rparr>"

definition example_dataset :: "string list \<Rightarrow> int \<Rightarrow> bool \<Rightarrow> RecordDataset" where
  "example_dataset the_ids bs kd =
     \<lparr>root_dir = ''data'', batch_size = bs, transform = None, target_transform = None,
      num_records = None, dataset = TFRecord (''data'', ''train.record''),
      keep_difficult = kd, num_batches = int (length the_ids) div bs,
      class_names = [''BACKGROUND'', ''cat'', ''dog''],
      class_dict = make_class_dict [''BACKGROUND'', ''cat'', ''dog''],
      ids = the_ids\<rparr>"
section \<open>Construction: properties\<close>

lemma init_num_records_empty: "init_num_records (example_fs []) ''data'' False = Inr None"
  by (simp add: init_num_records_def example_fs_def isfile_def)

text \<open>
  Claim C1, as the code has it. Construction never succeeds, for any record reader, file
  system, root, transforms, split flag, difficulty flag and batch size: it raises the
  AttributeError for \<open>ids\<close> at line 40 whenever it gets that far, that is, unless reading
  the record count (lines 29 to 36) or creating the record reader (line 38) has raised
  before. So no object is ever constructed on which \<open>__len__\<close>, \<open>__getitem__\<close>,
  \<open>get_image\<close> or \<open>get_annotation\<close> could run.
\<close>

theorem init_never_succeeds:
  "(\<exists>e. init T fs rt tr tt is_test kd bs = Inl e) \<and>
   ((\<exists>nr. init_num_records fs rt is_test = Inr nr) \<and> (\<exists>ds. T (image_sets_file rt is_test) = Inr ds)
      \<longrightarrow> init T fs rt tr tt is_test kd bs = Inl AttributeError)"
  by (auto simp add: init_def getattr_ids_def split: sum.splits)

theorem init_never_succeeds_witness:
  "init lazy_reader (example_fs []) ''data'' None None False False 32 = Inl AttributeError"
  using init_never_succeeds [of lazy_reader "example_fs []" "''data''" None None False False 32]
  by (simp add: init_num_records_empty lazy_reader_def)

text \<open>
  Claim C1 as stated fails: with the training split and a root that holds
  \<open>num_val.txt\<close> but no \<open>num_train.txt\<close>, line 35 raises FileNotFoundError, and line 40
  is not reached.
\<close>

theorem init_attribute_error_counterexample:
  "init lazy_reader (example_fs [(''num_val.txt'', File ''7'')]) ''data'' None None False False 32
     = Inl FileNotFoundError"
  by (simp add: init_def init_num_records_def example_fs_def isfile_def open_read_def)

text \<open>
  Claim C2, as the code has it. The constructor makes no check that the root directory or
  the record file of the split exists: what construction does is the same for two file
  systems that differ only in the root directory entry, \<open>train.record\<close> and
  \<open>val.record\<close>.
\<close>

theorem init_ignores_split_source:
  assumes "\<forall>rel. rel \<noteq> '''' \<and> rel \<noteq> ''train.record'' \<and> rel \<noteq> ''val.record''
             \<longrightarrow> fs (rt, rel) = fs' (rt, rel)"
  shows "init T fs rt tr tt is_test kd bs = init T fs' rt tr tt is_test kd bs
         \<and> init_num_records fs rt is_test = init_num_records fs' rt is_test
         \<and> init_class_names fs rt = init_class_names fs' rt"
proof -
  have a: "fs (rt, ''num_val.txt'') = fs' (rt, ''num_val.txt'')" using assms by simp
  have b: "fs (rt, ''num_train.txt'') = fs' (rt, ''num_train.txt'')" using assms by simp
  have c: "fs (rt, ''label_map.txt'') = fs' (rt, ''label_map.txt'')" using assms by simp
  have n: "init_num_records fs rt is_test = init_num_records fs' rt is_test"
    by (simp add: init_num_records_def isfile_def open_read_def a b)
  have l: "init_class_names fs rt = init_class_names fs' rt"
    by (simp add: init_class_names_def isfile_def open_read_def c)
  show ?thesis unfolding init_def n l by simp
qed

theorem init_ignores_split_source_witness:
  "init lazy_reader (example_fs [('''', Directory), (''train.record'', File '''')]) ''data''
     None None False False 32
   = init lazy_reader (example_fs []) ''data'' None None False False 32"
  using init_ignores_split_source
    [of "example_fs [('''', Directory), (''train.record'', File '''')]" "''data''"
        "example_fs []" lazy_reader None None False False 32]
  by (simp add: example_fs_def)

text \<open>
  Claim C2 as stated fails: with the root directory and \<open>train.record\<close> both present,
  construction of the training split does not succeed.
\<close>

theorem present_sources_counterexample:
  "example_fs [('''', Directory), (''train.record'', File '''')] (''data'', '''') = Some Directory \<and>
   isfile (example_fs [('''', Directory), (''train.record'', File '''')])
     (image_sets_file ''data'' False) \<and>
   init lazy_reader (example_fs [('''', Directory), (''train.record'', File '''')]) ''data''
     None None False False 32 = Inl AttributeError"
  by (simp add: init_def init_num_records_def example_fs_def isfile_def open_read_def
      lazy_reader_def getattr_ids_def image_sets_file_def)

text \<open>
  Claim C10 on the code. With the training split, line 34 tests \<open>num_val.txt\<close> where
  the validation branch (line 29) tests the file it reads: a root with \<open>num_train.txt\<close>
  alone gets no record count, and a root with \<open>num_val.txt\<close> alone raises at line 35,
  while the validation split reads its count.
\<close>

theorem num_train_not_read:
  "isfile (example_fs [(''num_train.txt'', File ''5'')]) (''data'', ''num_train.txt'') \<and>
   init_num_records (example_fs [(''num_train.txt'', File ''5'')]) ''data'' False = Inr None \<and>
   \<not> isfile (example_fs [(''num_val.txt'', File ''7'')]) (''data'', ''num_train.txt'') \<and>
   init_num_records (example_fs [(''num_val.txt'', File ''7'')]) ''data'' False
     = Inl FileNotFoundError \<and>
   init_num_records (example_fs [(''num_val.txt'', File ''7'')]) ''data'' True = Inr (Some 7)"
  by (simp add: init_num_records_def example_fs_def isfile_def open_read_def) code_simp

section \<open>The class dictionary: properties\<close>

lemma make_class_dict_snoc:
  "make_class_dict (xs @ [x]) = (make_class_dict xs)(x \<mapsto> int (length xs))"
  by (simp add: make_class_dict_def enumerate_append_eq)

lemma make_class_dict_nth:
  "distinct names \<Longrightarrow> i < length names \<Longrightarrow> make_class_dict names (names ! i) = Some (int i)"
proof (induction names arbitrary: i rule: rev_induct)
  case Nil
  then show ?case by simp
next
  case (snoc x xs)
  show ?case
  proof (cases "i < length xs")
    case True
    with snoc.prems have "xs ! i \<noteq> x" by auto
    with True snoc show ?thesis by (simp add: make_class_dict_snoc nth_append)
  next
    case False
    with snoc.prems have "i = length xs" by simp
    then show ?thesis by (simp add: make_class_dict_snoc)
  qed
qed

lemma replace_space_background: "replace_space ''BACKGROUND'' = ''BACKGROUND''"
  by code_simp

lemma toks_cat_dog:
  "split_on (CHR '','') (concat (map rstrip (file_lines ''cat,dog''))) = [''cat'', ''dog'']"
  by code_simp

text \<open>
  Claim C9, as the code has it. When \<open>label_map.txt\<close> is a file, its lines are joined
  (each without its trailing whitespace) and split on commas; every space character is
  removed from each token, also the spaces inside the token, and no other character;
  \<open>BACKGROUND\<close> is put first. When the resulting names are pairwise distinct,
  \<open>BACKGROUND\<close> has id 0 and the \<open>i\<close>-th token of the file has id \<open>i + 1\<close>.
\<close>

theorem class_dict_from_label_file:
  assumes "fs (rt, ''label_map.txt'') = Some (File c)"
    and "toks = split_on (CHR '','') (concat (map rstrip (file_lines c)))"
    and "names = ''BACKGROUND'' # map (filter (\<lambda>ch. ch \<noteq> CHR '' '')) toks"
  shows "init_class_names fs rt = Inr names \<and>
         (distinct names \<longrightarrow>
            make_class_dict names ''BACKGROUND'' = Some 0 \<and>
            (\<forall>i<length toks.
               make_class_dict names (filter (\<lambda>ch. ch \<noteq> CHR '' '') (toks ! i)) = Some (int i + 1)))"
proof -
  have n: "init_class_names fs rt = Inr names"
    using assms
    by (simp add: init_class_names_def isfile_def open_read_def label_file_classes_def
        replace_space_background) (simp add: replace_space_def)
  have d: "make_class_dict names ''BACKGROUND'' = Some 0" if "distinct names"
    using make_class_dict_nth [OF that, of 0] assms(3) by simp
  have t: "make_class_dict names (filter (\<lambda>ch. ch \<noteq> CHR '' '') (toks ! i)) = Some (int i + 1)"
    if "distinct names" "i < length toks" for i
    using make_class_dict_nth [OF that(1), of "Suc i"] that(2) assms(3) by simp
  show ?thesis using n d t by blast
qed

theorem class_dict_from_label_file_witness:
  "init_class_names (example_fs [(''label_map.txt'', File ''cat,dog'')]) ''data''
     = Inr [''BACKGROUND'', ''cat'', ''dog''] \<and>
   make_class_dict [''BACKGROUND'', ''cat'', ''dog''] ''BACKGROUND'' = Some 0 \<and>
   make_class_dict [''BACKGROUND'', ''cat'', ''dog''] ''cat'' = Some 1 \<and>
   make_class_dict [''BACKGROUND'', ''cat'', ''dog''] ''dog'' = Some 2"
proof -
  have f: "example_fs [(''label_map.txt'', File ''cat,dog'')] (''data'', ''label_map.txt'')
             = Some (File ''cat,dog'')"
    by (simp add: example_fs_def)
  have n: "[''BACKGROUND'', ''cat'', ''dog'']
             = ''BACKGROUND'' # map (filter (\<lambda>ch. ch \<noteq> CHR '' '')) [''cat'', ''dog'']"
    by simp
  have d: "distinct [''BACKGROUND'', ''cat'', ''dog'']" by simp
  note th = class_dict_from_label_file
    [where fs = "example_fs [(''label_map.txt'', File ''cat,dog'')]" and rt = "''data''"
       and c = "''cat,dog''" and toks = "[''cat'', ''dog'']"
       and names = "[''BACKGROUND'', ''cat'', ''dog'']", OF f toks_cat_dog [symmetric] n]
  from th d have a: "make_class_dict [''BACKGROUND'', ''cat'', ''dog''] ''BACKGROUND'' = Some 0"
    and b: "\<forall>i<length [''cat'', ''dog''].
              make_class_dict [''BACKGROUND'', ''cat'', ''dog'']
                (filter (\<lambda>ch. ch \<noteq> CHR '' '') ([''cat'', ''dog''] ! i)) = Some (int i + 1)"
    by blast+
  have c: "make_class_dict [''BACKGROUND'', ''cat'', ''dog''] ''cat'' = Some 1"
    using b [rule_format, of 0] by simp
  have e: "make_class_dict [''BACKGROUND'', ''cat'', ''dog''] ''dog'' = Some 2"
    using b [rule_format, of 1] by simp
  from th a c e show ?thesis by blast
qed

text \<open>
  Claim C9 as stated fails. A label file holding \<open>dining table\<close> gives the class name
  \<open>diningtable\<close>: the space inside the token is removed, and the token itself is no key
  of the dictionary. A label file holding \<open>cat,cat\<close> gives \<open>cat\<close> the id 2, the last
  position of the name, where the first token would have id 1.
\<close>

theorem label_token_counterexample:
  "init_class_names (example_fs [(''label_map.txt'', File ''dining table'')]) ''data''
     = Inr [''BACKGROUND'', ''diningtable''] \<and>
   make_class_dict [''BACKGROUND'', ''diningtable''] ''dining table'' = None \<and>
   make_class_dict [''BACKGROUND'', ''diningtable''] ''diningtable'' = Some 1 \<and>
   init_class_names (example_fs [(''label_map.txt'', File ''cat,cat'')]) ''data''
     = Inr [''BACKGROUND'', ''cat'', ''cat''] \<and>
   make_class_dict [''BACKGROUND'', ''cat'', ''cat''] ''cat'' = Some 2"
proof -
  have a: "label_file_classes ''dining table'' = [''BACKGROUND'', ''diningtable'']" by code_simp
  have b: "label_file_classes ''cat,cat'' = [''BACKGROUND'', ''cat'', ''cat'']" by code_simp
  show ?thesis
    by (simp add: init_class_names_def example_fs_def isfile_def open_read_def a b
        make_class_dict_def)
qed

section \<open>Annotation parsing: properties\<close>







lemma parse_cat_object:
  "parse_object cat_dog_dict (voc_object ''cat'' (bndbox ''1'' ''2'' ''3'' ''4'') [leaf ''difficult'' ''0''])
     = Inr (Some ([0, 1, 2, 3], 1, 0))"
  by code_simp


lemma arrays_cat_object:
  "annotation_arrays cat_dog_dict
     [voc_object ''cat'' (bndbox ''1'' ''2'' ''3'' ''4'') [leaf ''difficult'' ''0'']]
   = Inr (NDArray [1, 4] [0, 1, 2, 3], NDArray [1] [1], NDArray [1] [0])"
  by (simp add: annotation_arrays_def parse_cat_object np_array_boxes_def np_array_flat_def
      np_array_uint8_def)


lemma parse_objects_append:
  "parse_objects cd (xs @ ys) B L D =
     (case parse_objects cd xs B L D of
        Inl e \<Rightarrow> Inl e
      | Inr (B', L', D') \<Rightarrow> parse_objects cd ys B' L' D')"
proof (induction xs arbitrary: B L D)
  case Nil
  show ?case by simp
next
  case (Cons x xs)
  show ?case
    by (cases "parse_object cd x") (auto simp add: Cons.IH split: option.splits)
qed

text \<open>
  Claim C7. An object element whose lower-cased, stripped class name is no key of the
  class dictionary raises nothing and adds nothing: the arrays for a list of object
  elements are those for the list without it.
\<close>

theorem unrecognized_skipped:
  assumes "find_elem obj ''name'' = Some nm"
    and "elem_text nm = Some t"
    and "cd (strip (lower t)) = None"
  shows "parse_object cd obj = Inr None \<and>
         annotation_arrays cd (pre @ obj # post) = annotation_arrays cd (pre @ post)"
proof -
  have n: "parse_object cd obj = Inr None"
    using assms by (simp add: parse_object_def)
  have "parse_objects cd (pre @ obj # post) [] [] [] = parse_objects cd (pre @ post) [] [] []"
    by (simp add: parse_objects_append n split: sum.splits)
  with n show ?thesis by (simp add: annotation_arrays_def)
qed

lemma unicorn_name:
  "find_elem (voc_object ''Unicorn'' (bndbox ''5'' ''6'' ''7'' ''8'') []) ''name''
     = Some (leaf ''name'' ''Unicorn'')"
  by (simp add: find_elem_def voc_object_def leaf_def)

lemma unicorn_class: "cat_dog_dict (strip (lower ''Unicorn'')) = None"
  by code_simp

theorem unrecognized_skipped_witness:
  "annotation_arrays cat_dog_dict
     [voc_object ''Unicorn'' (bndbox ''5'' ''6'' ''7'' ''8'') [],
      voc_object ''cat'' (bndbox ''1'' ''2'' ''3'' ''4'') [leaf ''difficult'' ''0'']]
   = Inr (NDArray [1, 4] [0, 1, 2, 3], NDArray [1] [1], NDArray [1] [0])"
  using unrecognized_skipped
    [of "voc_object ''Unicorn'' (bndbox ''5'' ''6'' ''7'' ''8'') []" "leaf ''name'' ''Unicorn''"
        "''Unicorn''" cat_dog_dict "[]"
        "[voc_object ''cat'' (bndbox ''1'' ''2'' ''3'' ''4'') [leaf ''difficult'' ''0'']]",
     OF unicorn_name _ unicorn_class]
  by (simp add: leaf_def arrays_cat_object [unfolded leaf_def])





section \<open>Batch retrieval: properties\<close>


lemma getitem_loop_short:
  "int (length t1) + int (length idxs) < batch_size self
   \<Longrightarrow> getitem_loop w self ins t1 t2 idxs \<noteq> Inr (Some b)"
proof (induction idxs arbitrary: ins t1 t2)
  case Nil
  show ?case by simp
next
  case (Cons i rest)
  show ?case
  proof (cases "fetch_sample w self i")
    case (Inl e)
    then show ?thesis by simp
  next
    case (Inr s)
    obtain img bxs lbs where s: "s = (img, bxs, lbs)" by (cases s)
    have ne: "int (length (t1 @ [bxs])) \<noteq> batch_size self" using Cons.prems by simp
    have "int (length (t1 @ [bxs])) + int (length rest) < batch_size self"
      using Cons.prems by simp
    from Cons.IH [OF this] ne Inr s show ?thesis by simp
  qed
qed

lemma getitem_loop_none:
  "int (length t1) + int (length idxs) < batch_size self
   \<Longrightarrow> \<forall>i \<in> set idxs. \<exists>s. fetch_sample w self i = Inr s
   \<Longrightarrow> getitem_loop w self ins t1 t2 idxs = Inr None"
proof (induction idxs arbitrary: ins t1 t2)
  case Nil
  show ?case by simp
next
  case (Cons i rest)
  from Cons.prems(2) obtain s where f: "fetch_sample w self i = Inr s" by auto
  obtain img bxs lbs where s: "s = (img, bxs, lbs)" by (cases s)
  have ne: "int (length (t1 @ [bxs])) \<noteq> batch_size self" using Cons.prems(1) by simp
  have l: "int (length (t1 @ [bxs])) + int (length rest) < batch_size self"
    using Cons.prems(1) by simp
  have a: "\<forall>i \<in> set rest. \<exists>s. fetch_sample w self i = Inr s" using Cons.prems(2) by simp
  from Cons.IH [OF l a] ne f s show ?case by simp
qed

lemma getitem_short:
  "int (length idxs) < batch_size self \<Longrightarrow> getitem_loop w self [] [] [] idxs \<noteq> Inr (Some b)"
  using getitem_loop_short [of "[]" idxs self w "[]" "[]" b] by simp

lemma getitem_none:
  "int (length idxs) < batch_size self
   \<Longrightarrow> \<forall>i \<in> set idxs. \<exists>s. fetch_sample w self i = Inr s
   \<Longrightarrow> getitem_loop w self [] [] [] idxs = Inr None"
  using getitem_loop_none [of "[]" idxs self w "[]" "[]"] by simp



lemma batch_end_min:
  "batch_end self b = min ((b + 1) * batch_size self) (len self - 1)"
  by (simp add: batch_end_def Let_def min_def)

lemma arange_set: "set (arange l u) = {l..<u}"
  by (auto simp add: arange_def)

lemma arange_length: "int (length (arange l u)) = int (card {l..<u})"
  by (simp add: arange_def)

text \<open>
  Claim C3. For a shuffle that permutes its argument, the indices of batch \<open>b\<close> are
  exactly those of the range from \<open>b * batch_size\<close> up to, not including,
  \<open>min ((b + 1) * batch_size, N - 1)\<close>, each once. When the range has fewer than
  \<open>batch_size\<close> indices the call gives no batch: it never returns one, and it returns
  \<open>None\<close> when every sample of the range can be fetched.
\<close>

theorem batch_range_and_partial_batch:
  assumes "\<forall>xs. mset (shuffle xs) = mset xs"
  shows "set (batch_idxs shuffle self b)
           = {b * batch_size self ..< min ((b + 1) * batch_size self) (len self - 1)} \<and>
         distinct (batch_idxs shuffle self b) \<and>
         (int (card {b * batch_size self ..< min ((b + 1) * batch_size self) (len self - 1)})
            < batch_size self \<longrightarrow>
            (\<forall>batch. getitem w shuffle self b \<noteq> Inr (Some batch)) \<and>
            ((\<forall>i \<in> {b * batch_size self ..< min ((b + 1) * batch_size self) (len self - 1)}.
                 \<exists>s. fetch_sample w self i = Inr s)
               \<longrightarrow> getitem w shuffle self b = Inr None))"
proof -
  let ?lo = "b * batch_size self"
  let ?hi = "min ((b + 1) * batch_size self) (len self - 1)"
  have idxs: "batch_idxs shuffle self b = shuffle (arange ?lo ?hi)"
    by (simp add: batch_idxs_def batch_end_min)
  have m: "mset (batch_idxs shuffle self b) = mset (arange ?lo ?hi)"
    using assms idxs by simp
  have s: "set (batch_idxs shuffle self b) = {?lo..<?hi}"
    using mset_eq_setD [OF m] by (simp add: arange_set)
  have d: "distinct (batch_idxs shuffle self b)"
    using mset_eq_imp_distinct_iff [OF m] by (simp add: arange_def)
  have l: "int (length (batch_idxs shuffle self b)) = int (card {?lo..<?hi})"
    using mset_eq_length [OF m] arange_length [of ?lo ?hi] by simp
  have short: "getitem w shuffle self b \<noteq> Inr (Some batch)"
    if "int (card {?lo..<?hi}) < batch_size self" for batch
  proof -
    from that l have "int (length (batch_idxs shuffle self b)) < batch_size self" by linarith
    then show ?thesis unfolding getitem_def by (rule getitem_short)
  qed
  have none: "getitem w shuffle self b = Inr None"
    if "int (card {?lo..<?hi}) < batch_size self"
      and "\<forall>i \<in> {?lo..<?hi}. \<exists>s. fetch_sample w self i = Inr s"
  proof -
    from that(1) l have a: "int (length (batch_idxs shuffle self b)) < batch_size self"
      by linarith
    from that(2) s have c: "\<forall>i \<in> set (batch_idxs shuffle self b). \<exists>s. fetch_sample w self i = Inr s"
      by blast
    show ?thesis unfolding getitem_def using a c by (rule getitem_none)
  qed
  show ?thesis using s d short none by blast
qed

lemma fetch_example_2:
  "fetch_sample example_files (example_dataset [''a'', ''b'', ''a'', ''b''] 2 False) 2
     = Inr (NDArray [1, 1, 3] [0, 0, 0], NDArray [1, 4] [0, 1, 2, 3], NDArray [1] [1])"
  by code_simp

lemma example_range:
  "{1 * batch_size (example_dataset [''a'', ''b'', ''a'', ''b''] 2 False) ..<
      min ((1 + 1) * batch_size (example_dataset [''a'', ''b'', ''a'', ''b''] 2 False))
          (len (example_dataset [''a'', ''b'', ''a'', ''b''] 2 False) - 1)} = {2..<3}"
  by (simp add: example_dataset_def len_def)

theorem batch_range_and_partial_batch_witness:
  "set (batch_idxs rev (example_dataset [''a'', ''b'', ''a'', ''b''] 2 False) 1) = {2..<3} \<and>
   int (card {2..<3::int}) < batch_size (example_dataset [''a'', ''b'', ''a'', ''b''] 2 False) \<and>
   getitem example_files rev (example_dataset [''a'', ''b'', ''a'', ''b''] 2 False) 1 = Inr None"
proof -
  have p: "\<forall>xs::int list. mset (rev xs) = mset xs" by simp
  have c: "int (card {2..<3::int}) < batch_size (example_dataset [''a'', ''b'', ''a'', ''b''] 2 False)"
    by (simp add: example_dataset_def)
  have f: "\<forall>i \<in> {2..<3::int}.
             \<exists>s. fetch_sample example_files (example_dataset [''a'', ''b'', ''a'', ''b''] 2 False) i = Inr s"
  proof
    fix i :: int
    assume "i \<in> {2..<3}"
    then have "i = 2" by simp
    then show "\<exists>s. fetch_sample example_files (example_dataset [''a'', ''b'', ''a'', ''b''] 2 False) i = Inr s"
      using fetch_example_2 by simp
  qed
  note th = batch_range_and_partial_batch
    [OF p, of "example_dataset [''a'', ''b'', ''a'', ''b''] 2 False" 1 example_files,
     unfolded example_range]
  from th c f show ?thesis by blast
qed















end
